theory Spec2Isabelle
  imports Complex_Main
begin

section \<open>Regular expressions as \<open>re.search\<close> uses them\<close>

text \<open>
  The patterns of \<open>app.py\<close> use literals, alternation, optional parts, a character
  class repeated a fixed number of times, capturing groups and a trailing \<open>.*\<close>.
  A matcher state is the list of groups captured so far and the input still to read.
  \<open>rmatch\<close> lists the states a pattern can reach from a state, in the order a
  backtracking matcher tries them (first alternative first, greedy before empty).
\<close>

datatype rx =
    Lit string
  | Cls "(char \<times> char) list"
  | Seq rx rx
  | Alt rx rx
  | Opt rx
  | Times nat rx
  | Grp rx
  | DotStar

type_synonym rstate = "string list \<times> string"

definition in_class :: "(char \<times> char) list \<Rightarrow> char \<Rightarrow> bool" where
  "in_class rs c =
     list_ex (\<lambda>(lo, hi). (of_char lo :: nat) \<le> of_char c \<and> (of_char c :: nat) \<le> of_char hi) rs"

fun is_prefix :: "string \<Rightarrow> string \<Rightarrow> bool" where
  "is_prefix [] s = True"
| "is_prefix (p # ps) [] = False"
| "is_prefix (p # ps) (c # cs) = (p = c \<and> is_prefix ps cs)"

primrec rep :: "nat \<Rightarrow> (rstate \<Rightarrow> rstate list) \<Rightarrow> rstate \<Rightarrow> rstate list" where
  "rep 0 f st = [st]"
| "rep (Suc n) f st = concat (map (rep n f) (f st))"

text \<open>\<open>.\<close> matches any character but a newline; \<open>.*\<close> tries the longest run first.\<close>

fun dot_star :: "string list \<Rightarrow> string \<Rightarrow> rstate list" where
  "dot_star caps [] = [(caps, [])]"
| "dot_star caps (c # cs) =
     (if c = CHR 0x0A then [(caps, c # cs)] else dot_star caps cs @ [(caps, c # cs)])"

primrec rmatch :: "rx \<Rightarrow> rstate \<Rightarrow> rstate list" where
  "rmatch (Lit l) st =
     (if is_prefix l (snd st) then [(fst st, drop (length l) (snd st))] else [])"
| "rmatch (Cls rs) st =
     (case snd st of [] \<Rightarrow> [] | c # cs \<Rightarrow> if in_class rs c then [(fst st, cs)] else [])"
| "rmatch (Seq a b) st = concat (map (rmatch b) (rmatch a st))"
| "rmatch (Alt a b) st = rmatch a st @ rmatch b st"
| "rmatch (Opt a) st = rmatch a st @ [st]"
| "rmatch (Times n a) st = rep n (rmatch a) st"
| "rmatch (Grp a) st =
     map (\<lambda>(caps, rest). (caps @ [take (length (snd st) - length rest) (snd st)], rest))
       (rmatch a st)"
| "rmatch DotStar st = dot_star (fst st) (snd st)"

text \<open>
  \<open>re.search(pattern, s)\<close>: the first position of \<open>s\<close> where the pattern matches,
  with the first state the matcher reaches there; \<open>None\<close> when no position matches.
  The result is the list of captured groups (\<open>match.group(1)\<close> is its head).
\<close>

fun re_search :: "rx \<Rightarrow> string \<Rightarrow> string list option" where
  "re_search p [] = (case rmatch p ([], []) of [] \<Rightarrow> None | st # _ \<Rightarrow> Some (fst st))"
| "re_search p (c # cs) =
     (case rmatch p ([], c # cs) of [] \<Rightarrow> re_search p cs | st # _ \<Rightarrow> Some (fst st))"

section \<open>URL normaliser\<close>

text \<open>The class \<open>[0-9A-Za-z_-]\<close>.\<close>

definition id_class :: "(char \<times> char) list" where
  "id_class = [(CHR ''0'', CHR ''9''), (CHR ''A'', CHR ''Z''), (CHR ''a'', CHR ''z''),
               (CHR ''_'', CHR ''_''), (CHR ''-'', CHR ''-'')]"

text \<open>
  The three patterns of \<open>clean_youtube_url\<close>, in the order of the source:
  \<^verbatim>\<open>(?:v=|/)([0-9A-Za-z_-]{11}).*\<close>, \<^verbatim>\<open>(?:embed/)([0-9A-Za-z_-]{11})\<close>,
  \<^verbatim>\<open>(?:watch\?v=)([0-9A-Za-z_-]{11})\<close>.
\<close>

definition clean_patterns :: "rx list" where
  "clean_patterns =
     [Seq (Alt (Lit ''v='') (Lit ''/'')) (Seq (Grp (Times 11 (Cls id_class))) DotStar),
      Seq (Lit ''embed/'') (Grp (Times 11 (Cls id_class))),
      Seq (Lit ''watch?v='') (Grp (Times 11 (Cls id_class)))]"

text \<open>The loop over the patterns: the first pattern that matches decides.\<close>

fun first_match :: "rx list \<Rightarrow> string \<Rightarrow> string list option" where
  "first_match [] url = None"
| "first_match (p # ps) url =
     (case re_search p url of None \<Rightarrow> first_match ps url | Some caps \<Rightarrow> Some caps)"

definition clean_youtube_url :: "string \<Rightarrow> string" where
  "clean_youtube_url url =
     (case first_match clean_patterns url of
        None \<Rightarrow> url
      | Some caps \<Rightarrow> ''https://www.youtube.com/watch?v='' @ hd caps)"

text \<open>
  The two patterns of \<open>is_valid_youtube_url\<close>:
  \<^verbatim>\<open>(https?://)?(www\.)?(youtube|youtu|youtube-nocookie)\.(com|be)/\<close> and
  \<^verbatim>\<open>(https?://)?(m\.)?youtube\.com/\<close>.
\<close>

definition youtube_patterns :: "rx list" where
  "youtube_patterns =
     [Seq (Opt (Grp (Seq (Lit ''http'') (Seq (Opt (Lit ''s'')) (Lit ''://'')))))
        (Seq (Opt (Grp (Lit ''www.'')))
          (Seq (Grp (Alt (Lit ''youtube'') (Alt (Lit ''youtu'') (Lit ''youtube-nocookie''))))
            (Seq (Lit ''.'') (Seq (Grp (Alt (Lit ''com'') (Lit ''be''))) (Lit ''/''))))),
      Seq (Opt (Grp (Seq (Lit ''http'') (Seq (Opt (Lit ''s'')) (Lit ''://'')))))
        (Seq (Opt (Grp (Lit ''m.''))) (Lit ''youtube.com/''))]"

definition is_valid_youtube_url :: "string \<Rightarrow> bool" where
  "is_valid_youtube_url url = list_ex (\<lambda>p. re_search p url \<noteq> None) youtube_patterns"

section \<open>Python values, exceptions and helpers\<close>

text \<open>
  A dictionary key is either absent or present with a value; Python's \<open>None\<close> is
  \<open>None\<close> of an option type. Numbers are exact rationals: the bounds proved below do
  not depend on the rounding of IEEE doubles.
\<close>

datatype 'a field = Absent | Present 'a

text \<open>Subclasses of \<open>Exception\<close>, each carrying what \<open>str(e)\<close> shows.\<close>

datatype exn =
    KeyError string
  | TypeError string
  | ZeroDivisionError string
  | AttributeError string
  | DownloadError string
  | OSError string

fun str_exn :: "exn \<Rightarrow> string" where
  "str_exn (KeyError k) = [CHR 0x27] @ k @ [CHR 0x27]"
| "str_exn (TypeError m) = m"
| "str_exn (ZeroDivisionError m) = m"
| "str_exn (AttributeError m) = m"
| "str_exn (DownloadError m) = m"
| "str_exn (OSError m) = m"

text \<open>
  A value of a JSON request body (the elements of arrays and objects are left out), the
  name of its Python type, and the \<open>AttributeError\<close> for a method the type lacks.
\<close>

datatype jval = JStr string | JInt int | JFloat rat | JBool bool | JNull | JList | JDict

fun py_type_name :: "jval \<Rightarrow> string" where
  "py_type_name (JStr s) = ''str''"
| "py_type_name (JInt i) = ''int''"
| "py_type_name (JFloat x) = ''float''"
| "py_type_name (JBool b) = ''bool''"
| "py_type_name JNull = ''NoneType''"
| "py_type_name JList = ''list''"
| "py_type_name JDict = ''dict''"

definition no_attribute :: "jval \<Rightarrow> string \<Rightarrow> exn" where
  "no_attribute v attr =
     AttributeError ([CHR 0x27] @ py_type_name v @ [CHR 0x27] @ '' object has no attribute ''
                     @ [CHR 0x27] @ attr @ [CHR 0x27])"

definition py_getitem :: "string \<Rightarrow> 'a field \<Rightarrow> exn + 'a" where
  "py_getitem k f = (case f of Absent \<Rightarrow> Inl (KeyError k) | Present v \<Rightarrow> Inr v)"

text \<open>
  \<open>a / b\<close> on numbers or \<open>None\<close>. The hook only logs what this raises, so the text of
  the exception (which names the operand types in Python) is kept short.
\<close>

definition py_truediv :: "rat option \<Rightarrow> rat option \<Rightarrow> exn + rat" where
  "py_truediv a b =
     (case (a, b) of
        (Some x, Some y) \<Rightarrow>
          if y = 0 then Inl (ZeroDivisionError ''division by zero'') else Inr (x / y)
      | _ \<Rightarrow> Inl (TypeError ''unsupported operand type(s) for /''))"

text \<open>\<open>round(x, 1)\<close>: to the nearest tenth, a tie to the even neighbour.\<close>

definition round_half_even :: "rat \<Rightarrow> int" where
  "round_half_even x =
     (let f = \<lfloor>x\<rfloor>; r = x - of_int f
      in if r < 1 / 2 then f else if 1 / 2 < r then f + 1 else if even f then f else f + 1)"

definition py_round1 :: "rat \<Rightarrow> rat" where
  "py_round1 x = of_int (round_half_even (x * 10)) / 10"

text \<open>\<open>int(x)\<close> truncates towards zero; \<open>str(n)\<close> is the decimal numeral.\<close>

definition py_int :: "rat \<Rightarrow> int" where
  "py_int x = (if 0 \<le> x then \<lfloor>x\<rfloor> else \<lceil>x\<rceil>)"

definition digit_char :: "nat \<Rightarrow> char" where
  "digit_char d = ''0123456789'' ! d"

fun str_nat :: "nat \<Rightarrow> string" where
  "str_nat n = (if n < 10 then [digit_char n] else str_nat (n div 10) @ [digit_char (n mod 10)])"

declare str_nat.simps [simp del]

definition str_int :: "int \<Rightarrow> string" where
  "str_int i = (if i < 0 then CHR ''-'' # str_nat (nat (- i)) else str_nat (nat i))"

text \<open>\<open>s.strip()\<close>: the white space of \<open>str.isspace\<close> below U+0080.\<close>

definition is_space :: "char \<Rightarrow> bool" where
  "is_space c =
     (c \<in> set [CHR '' '', CHR 0x09, CHR 0x0A, CHR 0x0B, CHR 0x0C, CHR 0x0D,
                CHR 0x1C, CHR 0x1D, CHR 0x1E, CHR 0x1F])"

definition py_strip :: "string \<Rightarrow> string" where
  "py_strip s = rev (dropWhile is_space (rev (dropWhile is_space s)))"

text \<open>\<open>s.rsplit('.', 1)[0]\<close>: the part before the last dot, all of \<open>s\<close> without one.\<close>

definition rsplit_dot_head :: "string \<Rightarrow> string" where
  "rsplit_dot_head s =
     (if CHR ''.'' \<in> set s then rev (tl (dropWhile (\<lambda>c. c \<noteq> CHR ''.'') (rev s))) else s)"

text \<open>\<open>os.path.basename\<close>: what follows the last slash.\<close>

definition basename :: "string \<Rightarrow> string" where
  "basename p = rev (takeWhile (\<lambda>c. c \<noteq> CHR ''/'') (rev p))"

text \<open>\<open>os.path.join(a, b)\<close> for a relative \<open>b\<close>.\<close>

definition path_join :: "string \<Rightarrow> string \<Rightarrow> string" where
  "path_join a b = (if a = [] \<or> last a = CHR ''/'' then a @ b else a @ ''/'' @ b)"

definition dict_get :: "(string \<times> jval) list \<Rightarrow> string \<Rightarrow> jval \<Rightarrow> jval" where
  "dict_get d k dflt = (case map_of d k of None \<Rightarrow> dflt | Some v \<Rightarrow> v)"

section \<open>Job registry\<close>

text \<open>
  The dictionaries stored in \<open>download_progress\<close>: \<open>status\<close> is in every one of them,
  the other keys are present or not according to the write.
\<close>

record job =
  status :: string
  progress :: "rat field"
  filename :: "string option field"
  filepath :: "string field"
  error :: "string field"

type_synonym registry = "string \<rightharpoonup> job"

datatype body =
    ErrorJson string
  | StartedJson string
  | JobJson job
  | Attachment string "string option"

type_synonym response = "body \<times> nat"

text \<open>\<open>get_progress\<close>: the stored dictionary, or \<open>{'status': 'not_found'}\<close>; always 200.\<close>

definition not_found_job :: job where
  "not_found_job =
     \<lparr>status = ''not_found'', progress = Absent, filename = Absent, filepath = Absent,
      error = Absent\<rparr>"

definition get_progress :: "string \<Rightarrow> registry \<Rightarrow> response" where
  "get_progress download_id reg =
     (JobJson (case reg download_id of None \<Rightarrow> not_found_job | Some j \<Rightarrow> j), 200)"

section \<open>Starting a download\<close>

definition starting_job :: job where
  "starting_job =
     \<lparr>status = ''starting'', progress = Present 0, filename = Present None,
      filepath = Absent, error = Absent\<rparr>"

text \<open>The arguments handed to the worker thread.\<close>

record worker_args =
  w_download_id :: string
  w_url :: string
  w_format_type :: jval
  w_quality :: jval

text \<open>
  \<open>download_video\<close>, given the clock reading \<open>now\<close> (seconds) and the parsed JSON body
  (an object; the empty one is falsy like \<open>None\<close>). It returns the response, the
  registry and the thread it started, if any.
\<close>

definition download_video_body ::
  "rat \<Rightarrow> (string \<times> jval) list \<Rightarrow> registry
     \<Rightarrow> exn + (response \<times> registry \<times> worker_args option)" where
  "download_video_body now data reg =
     (if data = [] then Inr ((ErrorJson (''Request inv'' @ [CHR 0xC3, CHR 0xA1] @ ''lido''), 400), reg, None)
      else case dict_get data ''url'' (JStr []) of
        JStr raw \<Rightarrow>
          (let url = py_strip raw;
               format_type = dict_get data ''format_type'' (JStr ''video'');
               quality = dict_get data ''quality'' (JStr ''Mejor calidad'')
           in if url = [] then Inr ((ErrorJson ''URL no proporcionada'', 400), reg, None)
              else
                let clean_url = clean_youtube_url url;
                    download_id = ''download_'' @ str_int (py_int (now * 1000));
                    reg' = reg(download_id \<mapsto> starting_job)
                in Inr ((StartedJson download_id, 200), reg',
                        Some \<lparr>w_download_id = download_id, w_url = clean_url,
                              w_format_type = format_type, w_quality = quality\<rparr>))
      | _ \<Rightarrow> Inl (no_attribute (dict_get data ''url'' (JStr [])) ''strip''))"

definition download_video ::
  "rat \<Rightarrow> (string \<times> jval) list \<Rightarrow> registry \<Rightarrow> response \<times> registry \<times> worker_args option" where
  "download_video now data reg =
     (case download_video_body now data reg of
        Inr res \<Rightarrow> res
      | Inl e \<Rightarrow> ((ErrorJson (''Error al iniciar descarga: '' @ str_exn e), 500), reg, None))"

section \<open>Download worker\<close>

text \<open>The dictionary the backend passes to the progress hook.\<close>

record hook_dict =
  d_status :: "string field"
  downloaded_bytes :: "rat option field"
  total_bytes :: "rat option field"
  total_bytes_estimate :: "rat option field"
  d_filename :: "string option field"

text \<open>\<open>(d['downloaded_bytes'] / d[total_key]) * 100\<close>, with every way it can raise.\<close>

definition percent_of :: "hook_dict \<Rightarrow> string \<Rightarrow> rat option field \<Rightarrow> exn + rat" where
  "percent_of d total_key tot =
     (case py_getitem ''downloaded_bytes'' (downloaded_bytes d) of
        Inl e \<Rightarrow> Inl e
      | Inr got \<Rightarrow>
          (case py_getitem total_key tot of
             Inl e \<Rightarrow> Inl e
           | Inr t \<Rightarrow>
               (case py_truediv got t of Inl e \<Rightarrow> Inl e | Inr q \<Rightarrow> Inr (q * 100))))"

definition hook_percent :: "hook_dict \<Rightarrow> exn + rat" where
  "hook_percent d =
     (if total_bytes d \<noteq> Absent then percent_of d ''total_bytes'' (total_bytes d)
      else if total_bytes_estimate d \<noteq> Absent
           then percent_of d ''total_bytes_estimate'' (total_bytes_estimate d)
      else Inr 0)"

definition downloading_job :: "rat \<Rightarrow> job" where
  "downloading_job percent =
     \<lparr>status = ''downloading'', progress = Present (py_round1 percent),
      filename = Present None, filepath = Absent, error = Absent\<rparr>"

definition processing_job :: "string option \<Rightarrow> job" where
  "processing_job fname =
     \<lparr>status = ''processing'', progress = Present 100, filename = Present fname,
      filepath = Absent, error = Absent\<rparr>"

text \<open>The body of the hook's \<open>try\<close>, then the hook: an exception is logged and dropped.\<close>

definition progress_hook_body :: "string \<Rightarrow> hook_dict \<Rightarrow> registry \<Rightarrow> exn + registry" where
  "progress_hook_body download_id d reg =
     (case py_getitem ''status'' (d_status d) of
        Inl e \<Rightarrow> Inl e
      | Inr st \<Rightarrow>
          if st = ''downloading'' then
            (case hook_percent d of
               Inl e \<Rightarrow> Inl e
             | Inr percent \<Rightarrow> Inr (reg(download_id \<mapsto> downloading_job percent)))
          else if st = ''finished'' then
            Inr (reg(download_id \<mapsto>
                   processing_job (case d_filename d of Absent \<Rightarrow> None | Present f \<Rightarrow> f)))
          else Inr reg)"

definition progress_hook :: "string \<Rightarrow> hook_dict \<Rightarrow> registry \<Rightarrow> registry" where
  "progress_hook download_id d reg =
     (case progress_hook_body download_id d reg of Inl e \<Rightarrow> reg | Inr reg' \<Rightarrow> reg')"

text \<open>The options of the backend that the worker sets.\<close>

record postprocessor =
  pp_key :: string
  preferredcodec :: string
  preferredquality :: "string field"

record ydl_opts =
  outtmpl :: string
  cookiefile :: "string option"
  o_format :: "string field"
  postprocessors :: "postprocessor list"
  merge_output_format :: "string field"

text \<open>
  What one run of the backend does, seen from the worker: the hook calls it makes, in
  order; then either the exception it raises or the name \<open>prepare_filename\<close> gives; and,
  when it gave a name, the exception raised after the \<open>completed\<close> write, inside the
  \<open>try\<close> still (on leaving the \<open>with\<close> block), if any.
\<close>

record backend_run =
  run_events :: "hook_dict list"
  run_result :: "exn + string"
  run_close :: "exn option"

text \<open>What the worker reads from its surroundings.\<close>

record worker_env =
  ffmpeg_probe :: "exn option"
  TEMP_DOWNLOAD_FOLDER :: string
  cookies_exist :: bool
  backend :: "string \<Rightarrow> ydl_opts \<Rightarrow> backend_run"

text \<open>\<open>check_ffmpeg\<close>: any exception of the probe means no ffmpeg.\<close>

definition check_ffmpeg :: "worker_env \<Rightarrow> bool" where
  "check_ffmpeg env = (case ffmpeg_probe env of None \<Rightarrow> True | Some e \<Rightarrow> False)"

text \<open>\<open>quality.endswith('p')\<close> exists on strings only.\<close>

definition endswith_p :: "jval \<Rightarrow> exn + bool" where
  "endswith_p q =
     (case q of
        JStr s \<Rightarrow> Inr (s \<noteq> [] \<and> last s = CHR ''p'')
      | _ \<Rightarrow> Inl (no_attribute q ''endswith''))"

definition jstr_butlast :: "jval \<Rightarrow> string" where
  "jstr_butlast q = (case q of JStr s \<Rightarrow> butlast s | _ \<Rightarrow> [])"

definition extract_audio :: "string \<Rightarrow> string field \<Rightarrow> postprocessor" where
  "extract_audio codec q =
     \<lparr>pp_key = ''FFmpegExtractAudio'', preferredcodec = codec, preferredquality = q\<rparr>"

definition configure_format :: "ydl_opts \<Rightarrow> jval \<Rightarrow> jval \<Rightarrow> bool \<Rightarrow> exn + ydl_opts" where
  "configure_format opts format_type quality has_ffmpeg =
     (if format_type = JStr ''audio'' then
        (if quality = JStr ''mp3'' then
           Inr (opts\<lparr>o_format := Present ''bestaudio'',
                     postprocessors := [extract_audio ''mp3'' (Present ''192'')]\<rparr>)
         else if quality = JStr ''m4a'' then
           Inr (opts\<lparr>o_format := Present ''bestaudio[ext=m4a]/bestaudio''\<rparr>)
         else if quality = JStr ''wav'' then
           Inr (opts\<lparr>o_format := Present ''bestaudio'',
                     postprocessors := [extract_audio ''wav'' Absent]\<rparr>)
         else Inr (opts\<lparr>o_format := Present ''bestaudio''\<rparr>))
      else if has_ffmpeg then
        (if quality = JStr ''Mejor calidad'' then
           Inr (opts\<lparr>o_format := Present ''bestvideo[ext=mp4]+bestaudio[ext=m4a]/best'',
                     merge_output_format := Present ''mp4''\<rparr>)
         else
           (case endswith_p quality of
              Inl e \<Rightarrow> Inl e
            | Inr True \<Rightarrow>
                Inr (opts\<lparr>o_format := Present
                            (''bestvideo[height<='' @ jstr_butlast quality
                             @ ''][ext=mp4]+bestaudio[ext=m4a]/best[height<=''
                             @ jstr_butlast quality @ '']''),
                          merge_output_format := Present ''mp4''\<rparr>)
            | Inr False \<Rightarrow> Inr (opts\<lparr>merge_output_format := Present ''mp4''\<rparr>)))
      else
        (if quality = JStr ''Mejor calidad'' then
           Inr (opts\<lparr>o_format := Present ''best[ext=mp4]/best''\<rparr>)
         else
           (case endswith_p quality of
              Inl e \<Rightarrow> Inl e
            | Inr True \<Rightarrow>
                Inr (opts\<lparr>o_format := Present
                            (''best[height<='' @ jstr_butlast quality
                             @ ''][ext=mp4]/best[height<='' @ jstr_butlast quality @ '']'')\<rparr>)
            | Inr False \<Rightarrow> Inr opts)))"

text \<open>The extension after a conversion to mp3 or wav.\<close>

definition final_filename :: "jval \<Rightarrow> jval \<Rightarrow> string \<Rightarrow> string" where
  "final_filename format_type quality fname =
     (if format_type = JStr ''audio'' \<and> quality = JStr ''mp3'' then rsplit_dot_head fname @ ''.mp3''
      else if format_type = JStr ''audio'' \<and> quality = JStr ''wav''
           then rsplit_dot_head fname @ ''.wav''
      else fname)"

definition completed_job :: "string \<Rightarrow> job" where
  "completed_job fname =
     \<lparr>status = ''completed'', progress = Present 100, filename = Present (Some (basename fname)),
      filepath = Present fname, error = Absent\<rparr>"

definition error_job :: "exn \<Rightarrow> job" where
  "error_job e =
     \<lparr>status = ''error'', progress = Present 0, filename = Absent, filepath = Absent,
      error = Present (str_exn e)\<rparr>"

text \<open>The hook calls of one backend run, one after the other.\<close>

definition run_hooks :: "string \<Rightarrow> hook_dict list \<Rightarrow> registry \<Rightarrow> registry" where
  "run_hooks download_id ds reg = foldl (\<lambda>r d. progress_hook download_id d r) reg ds"

definition initial_opts :: "worker_env \<Rightarrow> string \<Rightarrow> ydl_opts" where
  "initial_opts env download_id =
     \<lparr>outtmpl = path_join (TEMP_DOWNLOAD_FOLDER env)
                  (''yt_download_'' @ download_id @ ''_%(title)s.%(ext)s''),
      cookiefile = (if cookies_exist env then Some ''cookies.txt'' else None),
      o_format = Absent, postprocessors = [], merge_output_format = Absent\<rparr>"

text \<open>
  The body of the worker's \<open>try\<close>: the exception that leaves it, if any, and the registry
  as the body left it. The writes of the hook stay when the backend raises later, and so
  does the \<open>completed\<close> write when leaving the \<open>with\<close> block raises after it.
\<close>

definition download_worker_body ::
  "worker_env \<Rightarrow> string \<Rightarrow> string \<Rightarrow> jval \<Rightarrow> jval \<Rightarrow> registry \<Rightarrow> exn option \<times> registry" where
  "download_worker_body env download_id url format_type quality reg =
     (let has_ffmpeg = check_ffmpeg env
      in case configure_format (initial_opts env download_id) format_type quality has_ffmpeg of
           Inl e \<Rightarrow> (Some e, reg)
         | Inr opts \<Rightarrow>
             (let run = backend env url opts;
                  reg1 = run_hooks download_id (run_events run) reg
              in case run_result run of
                   Inl e \<Rightarrow> (Some e, reg1)
                 | Inr fname \<Rightarrow>
                     (run_close run,
                      reg1(download_id \<mapsto>
                             completed_job (final_filename format_type quality fname)))))"

text \<open>
  The worker: \<open>except Exception\<close> turns what left the body into an \<open>error\<close> write.
  The first component is the exception that leaves the worker.
\<close>

definition download_worker ::
  "worker_env \<Rightarrow> string \<Rightarrow> string \<Rightarrow> jval \<Rightarrow> jval \<Rightarrow> registry \<Rightarrow> exn option \<times> registry" where
  "download_worker env download_id url format_type quality reg =
     (case download_worker_body env download_id url format_type quality reg of
        (Some e, reg') \<Rightarrow> (None, reg'(download_id \<mapsto> error_job e))
      | (None, reg') \<Rightarrow> (None, reg'))"




section \<open>Serving the finished file\<close>

text \<open>
  What \<open>download_file\<close> reads from the disk: whether a path exists, and the exception
  \<open>send_file\<close> raises on it, if any.
\<close>

record disk =
  path_exists :: "string \<Rightarrow> bool"
  send_file_error :: "string \<Rightarrow> exn option"

definition download_file_body :: "string \<Rightarrow> registry \<Rightarrow> disk \<Rightarrow> exn + response" where
  "download_file_body download_id reg fs =
     (case reg download_id of
        None \<Rightarrow> Inr (ErrorJson ''Descarga no completada'', 404)
      | Some prog \<Rightarrow>
          if status prog \<noteq> ''completed'' then Inr (ErrorJson ''Descarga no completada'', 404)
          else
            (case filepath prog of
               Absent \<Rightarrow> Inr (ErrorJson ''Archivo no encontrado'', 404)
             | Present p \<Rightarrow>
                 if p = [] \<or> \<not> path_exists fs p
                 then Inr (ErrorJson ''Archivo no encontrado'', 404)
                 else
                   (case py_getitem ''filename'' (filename prog) of
                      Inl e \<Rightarrow> Inl e
                    | Inr name \<Rightarrow>
                        (case send_file_error fs p of
                           Some e \<Rightarrow> Inl e
                         | None \<Rightarrow> Inr (Attachment p name, 200)))))"

definition download_file :: "string \<Rightarrow> registry \<Rightarrow> disk \<Rightarrow> response" where
  "download_file download_id reg fs =
     (case download_file_body download_id reg fs of
        Inr resp \<Rightarrow> resp
      | Inl e \<Rightarrow> (ErrorJson (str_exn e), 500))"

section \<open>Retention reaper\<close>

text \<open>
  An entry of the temporary folder: its name, what \<open>stat().st_mtime\<close> gives or raises,
  and the exception \<open>unlink()\<close> raises, if any.
\<close>

record dir_entry =
  entry_name :: string
  entry_mtime :: "exn + rat"
  entry_unlink :: "exn option"

text \<open>\<open>MAX_FILE_AGE\<close>: the environment variable, 3600 without it.\<close>

definition MAX_FILE_AGE :: "int option \<Rightarrow> int" where
  "MAX_FILE_AGE var = (case var of None \<Rightarrow> 3600 | Some v \<Rightarrow> v)"

text \<open>The glob \<open>yt_download_*\<close>.\<close>

definition glob_yt_download :: "string \<Rightarrow> bool" where
  "glob_yt_download name = is_prefix ''yt_download_'' name"

text \<open>
  The body of the loop's \<open>try\<close> for one entry: whether it deleted the entry, or the
  exception that left it.
\<close>

definition try_delete :: "rat \<Rightarrow> int \<Rightarrow> dir_entry \<Rightarrow> exn + bool" where
  "try_delete current_time max_age f =
     (case entry_mtime f of
        Inl e \<Rightarrow> Inl e
      | Inr mtime \<Rightarrow>
          if current_time - mtime > of_int max_age then
            (case entry_unlink f of Some e \<Rightarrow> Inl e | None \<Rightarrow> Inr True)
          else Inr False)"

text \<open>
  One turn of the loop on the folder and \<open>deleted_count\<close>: \<open>unlink\<close> removes the entry
  of that name; an exception is logged and the loop goes on.
\<close>

definition sweep_step ::
  "rat \<Rightarrow> int \<Rightarrow> dir_entry list \<times> nat \<Rightarrow> dir_entry \<Rightarrow> dir_entry list \<times> nat" where
  "sweep_step current_time max_age st f =
     (case try_delete current_time max_age f of
        Inr True \<Rightarrow> (filter (\<lambda>g. entry_name g \<noteq> entry_name f) (fst st), snd st + 1)
      | Inr False \<Rightarrow> st
      | Inl e \<Rightarrow> st)"

text \<open>
  \<open>clean_old_files\<close> on the folder's entries: the entries left and \<open>deleted_count\<close>.
  Listing the folder may itself raise, which the outer handler logs; the folder is then
  left as it is.
\<close>

definition clean_old_files ::
  "rat \<Rightarrow> int \<Rightarrow> exn + dir_entry list \<Rightarrow> (exn + dir_entry list) \<times> nat" where
  "clean_old_files current_time max_age folder =
     (case folder of
        Inl e \<Rightarrow> (Inl e, 0)
      | Inr fs \<Rightarrow>
          (let st = foldl (sweep_step current_time max_age) (fs, 0)
                      (filter (\<lambda>f. glob_yt_download (entry_name f)) fs)
           in (Inr (fst st), snd st)))"

text \<open>
  The naming convention of the job outputs (the worker's \<open>outtmpl\<close> starts every file
  name with \<open>yt_download_\<close>), an entry the sweep is to delete (a job output whose age
  is known and above the threshold), and one whose deletion goes through.
\<close>

definition job_output_name :: "string \<Rightarrow> bool" where
  "job_output_name name = (take 12 name = ''yt_download_'')"

definition stale :: "rat \<Rightarrow> int \<Rightarrow> dir_entry \<Rightarrow> bool" where
  "stale current_time max_age f =
     (job_output_name (entry_name f) \<and>
      (case entry_mtime f of Inl e \<Rightarrow> False | Inr mtime \<Rightarrow> current_time - mtime > of_int max_age))"

definition removable :: "dir_entry \<Rightarrow> bool" where
  "removable f = (entry_unlink f = None)"

section \<open>The status path\<close>







section \<open>Percentages\<close>





section \<open>Where the normaliser finds an identifier\<close>

text \<open>
  Eleven characters of the class at the head of a string; a string that starts with
  \<open>v=\<close> or \<open>/\<close> followed by such a run; a string with such a place somewhere.
\<close>

definition id_run :: "string \<Rightarrow> bool" where
  "id_run s = (11 \<le> length s \<and> list_all (in_class id_class) (take 11 s))"

definition id_here :: "string \<Rightarrow> bool" where
  "id_here s =
     ((is_prefix ''v='' s \<and> id_run (drop (length ''v='') s))
      \<or> (is_prefix ''/'' s \<and> id_run (drop (length ''/'') s)))"

fun has_id_after :: "string \<Rightarrow> bool" where
  "has_id_after [] = False"
| "has_id_after (c # cs) = (id_here (c # cs) \<or> has_id_after cs)"

section \<open>Concrete inputs\<close>

definition example_request :: "(string \<times> jval) list" where
  "example_request = [(''url'', JStr ''https://youtu.be/dQw4w9WgXcQ'')]"

definition example_env :: "hook_dict list \<Rightarrow> exn + string \<Rightarrow> worker_env" where
  "example_env evs res =
     \<lparr>ffmpeg_probe = None, TEMP_DOWNLOAD_FOLDER = ''/tmp'', cookies_exist = False,
      backend = (\<lambda>url opts. \<lparr>run_events = evs, run_result = res, run_close = None\<rparr>)\<rparr>"

definition closing_env :: "hook_dict list \<Rightarrow> string \<Rightarrow> exn \<Rightarrow> worker_env" where
  "closing_env evs fname e =
     \<lparr>ffmpeg_probe = None, TEMP_DOWNLOAD_FOLDER = ''/tmp'', cookies_exist = True,
      backend = (\<lambda>url opts. \<lparr>run_events = evs, run_result = Inr fname, run_close = Some e\<rparr>)\<rparr>"

definition no_ffmpeg_env :: "hook_dict list \<Rightarrow> exn + string \<Rightarrow> worker_env" where
  "no_ffmpeg_env evs res =
     \<lparr>ffmpeg_probe = Some (OSError (''[Errno 2] No such file or directory: '' @ [CHR 0x27] @ ''ffmpeg'' @ [CHR 0x27])),
      TEMP_DOWNLOAD_FOLDER = ''/tmp'', cookies_exist = False,
      backend = (\<lambda>url opts. \<lparr>run_events = evs, run_result = res, run_close = None\<rparr>)\<rparr>"

definition ev_downloading :: "rat \<Rightarrow> rat \<Rightarrow> hook_dict" where
  "ev_downloading got tot =
     \<lparr>d_status = Present ''downloading'', downloaded_bytes = Present (Some got),
      total_bytes = Present (Some tot), total_bytes_estimate = Absent,
      d_filename = Present (Some ''/tmp/yt_download_job_clip.f137.mp4'')\<rparr>"


definition ev_finished :: hook_dict where
  "ev_finished =
     \<lparr>d_status = Present ''finished'', downloaded_bytes = Present (Some 100),
      total_bytes = Present (Some 100), total_bytes_estimate = Absent,
      d_filename = Present (Some ''/tmp/yt_download_job_clip.f137.mp4'')\<rparr>"

definition example_disk :: disk where
  "example_disk =
     \<lparr>path_exists = (\<lambda>p. p = ''/tmp/yt_download_job_clip.mp4''),
      send_file_error = (\<lambda>p. None)\<rparr>"

definition fresh_file :: dir_entry where
  "fresh_file =
     \<lparr>entry_name = ''yt_download_download_1_a.mp4'', entry_mtime = Inr 9990,
      entry_unlink = None\<rparr>"

definition locked_file :: dir_entry where
  "locked_file =
     \<lparr>entry_name = ''yt_download_download_2_b.mp4'', entry_mtime = Inr 5000,
      entry_unlink = Some (OSError ''Permission denied'')\<rparr>"

definition foreign_file :: dir_entry where
  "foreign_file =
     \<lparr>entry_name = ''other_old.mp4'', entry_mtime = Inr 5000, entry_unlink = None\<rparr>"


definition old_file :: dir_entry where
  "old_file =
     \<lparr>entry_name = ''yt_download_download_3_c.mp4'', entry_mtime = Inr 5000,
      entry_unlink = None\<rparr>"

section \<open>Auxiliary facts\<close>

subsection \<open>Rounding\<close>

lemma floor_numeral_div: "\<lfloor>(numeral a :: rat) / numeral b\<rfloor> = numeral a div numeral b"
  using floor_divide_of_int_eq [of "numeral a" "numeral b", where ?'a = rat] by simp

text \<open>The answer of \<open>download_video\<close> to a request with a URL: the id is the clock in milliseconds.\<close>

lemma download_video_started:
  assumes "dict_get data ''url'' (JStr []) = JStr raw" and "py_strip raw \<noteq> []" and "data \<noteq> []"
  shows "fst (download_video now data reg)
           = (StartedJson (''download_'' @ str_int (py_int (now * 1000))), 200)"
  using assms by (simp add: download_video_def download_video_body_def Let_def)

lemma download_video_registry:
  assumes "dict_get data ''url'' (JStr []) = JStr raw" and "py_strip raw \<noteq> []" and "data \<noteq> []"
  shows "fst (snd (download_video now data reg))
           = reg(''download_'' @ str_int (py_int (now * 1000)) \<mapsto> starting_job)"
  using assms by (simp add: download_video_def download_video_body_def Let_def)



subsection \<open>The progress hook and the trace of a worker\<close>











lemma worker_never_raises: "fst (download_worker env did url ft q reg) = None"
  by (simp add: download_worker_def split: prod.splits option.splits)


text \<open>The body fails exactly in these three ways.\<close>

lemma worker_body_failure:
  "(fst (download_worker_body env did url ft q reg) = Some e) =
     (configure_format (initial_opts env did) ft q (check_ffmpeg env) = Inl e
      \<or> (\<exists>opts. configure_format (initial_opts env did) ft q (check_ffmpeg env) = Inr opts
                 \<and> (run_result (backend env url opts) = Inl e
                      \<or> (\<exists>fname. run_result (backend env url opts) = Inr fname
                                 \<and> run_close (backend env url opts) = Some e))))"
  by (auto simp: download_worker_body_def Let_def split: sum.splits)








subsection \<open>The sweep\<close>

lemma is_prefix_take: "is_prefix p s = (take (length p) s = p)"
  by (induction p s rule: is_prefix.induct) auto

lemma glob_is_naming_convention: "glob_yt_download name = job_output_name name"
proof -
  have l: "length ''yt_download_'' = (12::nat)" by simp
  show ?thesis
    unfolding glob_yt_download_def job_output_name_def is_prefix_take l by (rule refl)
qed

lemma try_delete_iff:
  "glob_yt_download (entry_name f) \<Longrightarrow> (try_delete t a f = Inr True) = (stale t a f \<and> removable f)"
  by (auto simp: try_delete_def stale_def removable_def glob_is_naming_convention
           split: sum.splits option.splits)

lemma sweep_step_unfold:
  "sweep_step t a (F, n) f =
     (if try_delete t a f = Inr True
      then (filter (\<lambda>g. entry_name g \<noteq> entry_name f) F, Suc n) else (F, n))"
  by (auto simp: sweep_step_def split: sum.splits bool.splits)

lemma sweep_fold:
  "foldl (sweep_step t a) (F, n) gs =
     (filter (\<lambda>g. entry_name g \<notin> entry_name ` {f \<in> set gs. try_delete t a f = Inr True}) F,
      n + length (filter (\<lambda>f. try_delete t a f = Inr True) gs))"
proof (induction gs arbitrary: F n)
  case Nil
  then show ?case by simp
next
  case (Cons g gs)
  show ?case
  proof (cases "try_delete t a g = Inr True")
    case True
    have "filter (\<lambda>h. entry_name h \<notin> entry_name ` {f \<in> set gs. try_delete t a f = Inr True})
            (filter (\<lambda>h. entry_name h \<noteq> entry_name g) F)
          = filter (\<lambda>h. entry_name h \<notin> entry_name ` {f \<in> set (g # gs). try_delete t a f = Inr True}) F"
      using True by (auto intro!: filter_cong)
    then show ?thesis using True by (simp add: sweep_step_unfold Cons.IH)
  next
    case False
    have "{f \<in> set (g # gs). try_delete t a f = Inr True} = {f \<in> set gs. try_delete t a f = Inr True}"
      using False by auto
    then show ?thesis using False by (simp add: sweep_step_unfold Cons.IH)
  qed
qed

subsection \<open>Matching the identifier patterns\<close>

lemma rep_single:
  assumes "\<And>caps s. f (caps, s) = (case s of [] \<Rightarrow> [] | x # xs \<Rightarrow> if P x then [(caps, xs)] else [])"
  shows "rep n f (caps, s) =
     (if n \<le> length s \<and> list_all P (take n s) then [(caps, drop n s)] else [])"
proof (induction n arbitrary: s)
  case 0
  then show ?case by simp
next
  case (Suc n)
  show ?case
  proof (cases s)
    case Nil
    then show ?thesis by (simp add: assms)
  next
    case (Cons x xs)
    then show ?thesis by (simp add: assms Suc.IH)
  qed
qed

lemma rmatch_id_group:
  "rmatch (Grp (Times 11 (Cls id_class))) (caps, s) =
     (if id_run s then [(caps @ [take 11 s], drop 11 s)] else [])"
proof -
  have "rep 11 (rmatch (Cls id_class)) (caps, s) =
     (if 11 \<le> length s \<and> list_all (in_class id_class) (take 11 s) then [(caps, drop 11 s)] else [])"
    by (rule rep_single) (simp split: list.splits)
  then show ?thesis by (simp add: id_run_def)
qed

lemma is_prefix_append: "is_prefix p s \<Longrightarrow> s = p @ drop (length p) s"
  by (induction p s rule: is_prefix.induct) simp_all

lemma has_id_after_drop: "has_id_after (drop k s) \<Longrightarrow> has_id_after s"
proof (induction s arbitrary: k)
  case Nil
  then show ?case by simp
next
  case (Cons c cs)
  then show ?case by (cases k) auto
qed

lemma id_here_has: "id_here s \<Longrightarrow> has_id_after s"
  by (cases s) (auto simp: id_here_def)

lemma id_after_slash: "id_run b \<Longrightarrow> has_id_after (a @ ''/'' @ b)"
  using has_id_after_drop [of "length a" "a @ ''/'' @ b"] by (simp add: id_here_def)

lemma id_after_v: "id_run b \<Longrightarrow> has_id_after (a @ ''v='' @ b)"
  using has_id_after_drop [of "length a" "a @ ''v='' @ b"] by (simp add: id_here_def)

lemma rmatch_lit_seq:
  "rmatch (Seq (Lit l) b) (caps, s) =
     (if is_prefix l s then rmatch b (caps, drop (length l) s) else [])"
  by simp

lemma rmatch_alt_seq:
  "rmatch (Seq (Alt (Lit l1) (Lit l2)) b) (caps, s) =
     (if is_prefix l1 s then rmatch b (caps, drop (length l1) s) else [])
     @ (if is_prefix l2 s then rmatch b (caps, drop (length l2) s) else [])"
  by simp

lemma id_group_needs_run:
  "rmatch (Grp (Times 11 (Cls id_class))) (caps, s) \<noteq> [] \<Longrightarrow> id_run s"
  by (cases "id_run s") (simp_all add: rmatch_id_group del: rmatch.simps)

lemma id_group_dot_star_needs_run:
  assumes "rmatch (Seq (Grp (Times 11 (Cls id_class))) DotStar) (caps, s) \<noteq> []"
  shows "id_run s"
proof (rule ccontr)
  assume "\<not> id_run s"
  then have "rmatch (Grp (Times 11 (Cls id_class))) (caps, s) = []"
    by (simp add: rmatch_id_group del: rmatch.simps)
  then have "rmatch (Seq (Grp (Times 11 (Cls id_class))) DotStar) (caps, s) = []"
    by (simp only: rmatch.simps(3) list.map concat.simps)
  with assms show False by contradiction
qed

lemma lit_group_match:
  "rmatch (Seq (Lit l) (Grp (Times 11 (Cls id_class)))) ([], s) \<noteq> [] \<Longrightarrow>
     is_prefix l s \<and> id_run (drop (length l) s)"
  by (cases "is_prefix l s"; cases "id_run (drop (length l) s)")
     (simp_all add: rmatch_lit_seq rmatch_id_group del: rmatch.simps)

lemma alt_group_match:
  "rmatch (Seq (Alt (Lit l1) (Lit l2)) (Seq (Grp (Times 11 (Cls id_class))) DotStar)) ([], s) \<noteq> []
   \<Longrightarrow> (is_prefix l1 s \<and> id_run (drop (length l1) s))
       \<or> (is_prefix l2 s \<and> id_run (drop (length l2) s))"
  by (auto simp add: rmatch_alt_seq simp del: rmatch.simps
           dest: id_group_dot_star_needs_run split: if_splits)

lemma pattern1_match:
  assumes "rmatch (clean_patterns ! 0) ([], s) \<noteq> []"
  shows "has_id_after s"
proof -
  from assms have "rmatch (Seq (Alt (Lit ''v='') (Lit ''/''))
                     (Seq (Grp (Times 11 (Cls id_class))) DotStar)) ([], s) \<noteq> []"
    by (simp add: clean_patterns_def del: rmatch.simps)
  then have "id_here s"
    unfolding id_here_def by (rule alt_group_match)
  then show ?thesis by (rule id_here_has)
qed

lemma split_embed: "''embed/'' @ b = ''embed'' @ ''/'' @ b"
  by simp

lemma split_watch: "''watch?v='' @ b = ''watch?'' @ ''v='' @ b"
  by simp

lemma pattern2_match:
  assumes "rmatch (clean_patterns ! 1) ([], s) \<noteq> []"
  shows "has_id_after s"
proof -
  from assms have "rmatch (Seq (Lit ''embed/'') (Grp (Times 11 (Cls id_class)))) ([], s) \<noteq> []"
    by (simp add: clean_patterns_def del: rmatch.simps)
  then have p: "is_prefix ''embed/'' s" and r: "id_run (drop (length ''embed/'') s)"
    using lit_group_match by blast+
  show ?thesis
    using id_after_slash [OF r, of "''embed''"] is_prefix_append [OF p] split_embed by metis
qed

lemma pattern3_match:
  assumes "rmatch (clean_patterns ! 2) ([], s) \<noteq> []"
  shows "has_id_after s"
proof -
  from assms have "rmatch (Seq (Lit ''watch?v='') (Grp (Times 11 (Cls id_class)))) ([], s) \<noteq> []"
    by (simp add: clean_patterns_def del: rmatch.simps)
  then have p: "is_prefix ''watch?v='' s" and r: "id_run (drop (length ''watch?v='') s)"
    using lit_group_match by blast+
  show ?thesis
    using id_after_v [OF r, of "''watch?''"] is_prefix_append [OF p] split_watch by metis
qed

lemma re_search_none:
  assumes "\<And>b. rmatch p ([], b) \<noteq> [] \<Longrightarrow> has_id_after b"
    and "\<not> has_id_after s"
  shows "re_search p s = None"
  using assms(2)
proof (induction s)
  case Nil
  then have "rmatch p ([], []) = []" using assms(1) by blast
  then show ?case by simp
next
  case (Cons c cs)
  then have "rmatch p ([], c # cs) = []" using assms(1) by blast
  moreover have "re_search p cs = None" using Cons by simp
  ultimately show ?case by simp
qed

section \<open>The claims\<close>




text \<open>
  C2. Starting a download stores a job that reads back as \<open>starting\<close>. The worker's
  \<open>completed\<close> write leaves a registry in which the job reads back as exactly the
  dictionary written (status, progress 100, file name, file path), and that is the
  registry the worker leaves when nothing raises after the write. An id the registry
  does not hold reads back as \<open>{'status': 'not_found'}\<close>. Every read answers 200.
\<close>

theorem registry_round_trip:
  "(fst (download_video now data reg) = (StartedJson did, 200) \<longrightarrow>
      get_progress did (fst (snd (download_video now data reg))) =
        (JobJson \<lparr>status = ''starting'', progress = Present 0, filename = Present None,
                  filepath = Absent, error = Absent\<rparr>, 200))
   \<and> (configure_format (initial_opts env did) ft q (check_ffmpeg env) = Inr opts
        \<and> run_result (backend env url opts) = Inr fname \<longrightarrow>
      get_progress did (snd (download_worker_body env did url ft q reg)) =
        (JobJson \<lparr>status = ''completed'', progress = Present 100,
                  filename = Present (Some (basename (final_filename ft q fname))),
                  filepath = Present (final_filename ft q fname), error = Absent\<rparr>, 200)
      \<and> (run_close (backend env url opts) = None \<longrightarrow>
           snd (download_worker env did url ft q reg)
             = snd (download_worker_body env did url ft q reg)))
   \<and> (reg did = None \<longrightarrow>
      get_progress did reg =
        (JobJson \<lparr>status = ''not_found'', progress = Absent, filename = Absent,
                  filepath = Absent, error = Absent\<rparr>, 200))"
proof (intro conjI impI)
  assume a: "fst (download_video now data reg) = (StartedJson did, 200)"
  then show "get_progress did (fst (snd (download_video now data reg))) =
        (JobJson \<lparr>status = ''starting'', progress = Present 0, filename = Present None,
                  filepath = Absent, error = Absent\<rparr>, 200)"
    by (auto simp: download_video_def download_video_body_def Let_def get_progress_def
                   starting_job_def split: if_splits jval.splits)
next
  assume "configure_format (initial_opts env did) ft q (check_ffmpeg env) = Inr opts
          \<and> run_result (backend env url opts) = Inr fname"
  then show "get_progress did (snd (download_worker_body env did url ft q reg)) =
        (JobJson \<lparr>status = ''completed'', progress = Present 100,
                  filename = Present (Some (basename (final_filename ft q fname))),
                  filepath = Present (final_filename ft q fname), error = Absent\<rparr>, 200)"
    by (simp add: download_worker_body_def Let_def get_progress_def completed_job_def)
next
  assume "configure_format (initial_opts env did) ft q (check_ffmpeg env) = Inr opts
          \<and> run_result (backend env url opts) = Inr fname"
    and "run_close (backend env url opts) = None"
  then show "snd (download_worker env did url ft q reg)
               = snd (download_worker_body env did url ft q reg)"
    by (simp add: download_worker_def download_worker_body_def Let_def)
next
  assume "reg did = None"
  then show "get_progress did reg =
        (JobJson \<lparr>status = ''not_found'', progress = Absent, filename = Absent,
                  filepath = Absent, error = Absent\<rparr>, 200)"
    by (simp add: get_progress_def not_found_job_def)
qed

theorem registry_round_trip_witness:
  "get_progress ''download_1700000000000''
     (fst (snd (download_video 1700000000 example_request Map.empty))) =
     (JobJson \<lparr>status = ''starting'', progress = Present 0, filename = Present None,
               filepath = Absent, error = Absent\<rparr>, 200)
   \<and> get_progress ''download_1700000000000''
       (snd (download_worker (example_env [ev_finished] (Inr ''/tmp/yt_download_job_clip.webm''))
          ''download_1700000000000'' ''https://www.youtube.com/watch?v=dQw4w9WgXcQ''
          (JStr ''audio'') (JStr ''mp3'') Map.empty)) =
     (JobJson \<lparr>status = ''completed'', progress = Present 100,
               filename = Present (Some ''yt_download_job_clip.mp3''),
               filepath = Present ''/tmp/yt_download_job_clip.mp3'', error = Absent\<rparr>, 200)
   \<and> get_progress ''download_1700000000000'' Map.empty =
     (JobJson \<lparr>status = ''not_found'', progress = Absent, filename = Absent,
               filepath = Absent, error = Absent\<rparr>, 200)"
proof -
  let ?env = "example_env [ev_finished] (Inr ''/tmp/yt_download_job_clip.webm'')"
  let ?did = "''download_1700000000000''"
  let ?url = "''https://www.youtube.com/watch?v=dQw4w9WgXcQ''"
  let ?opts = "(initial_opts ?env ?did)\<lparr>o_format := Present ''bestaudio'',
                 postprocessors := [extract_audio ''mp3'' (Present ''192'')]\<rparr>"
  have a: "fst (download_video 1700000000 example_request Map.empty) = (StartedJson ?did, 200)"
    by (simp add: download_video_def download_video_body_def example_request_def dict_get_def
          py_strip_def is_space_def py_int_def str_int_def str_nat.simps digit_char_def Let_def)
  have b: "configure_format (initial_opts ?env ?did) (JStr ''audio'') (JStr ''mp3'')
             (check_ffmpeg ?env) = Inr ?opts"
    by (simp add: configure_format_def)
  have c: "run_result (backend ?env ?url ?opts) = Inr ''/tmp/yt_download_job_clip.webm''"
    by (simp add: example_env_def)
  have g: "run_close (backend ?env ?url ?opts) = None"
    by (simp add: example_env_def)
  have d: "final_filename (JStr ''audio'') (JStr ''mp3'') ''/tmp/yt_download_job_clip.webm''
             = ''/tmp/yt_download_job_clip.mp3''"
    by (simp add: final_filename_def rsplit_dot_head_def)
  have e: "basename ''/tmp/yt_download_job_clip.mp3'' = ''yt_download_job_clip.mp3''"
    by (simp add: basename_def)
  have f: "(Map.empty :: registry) ?did = None" by simp
  show ?thesis
    using registry_round_trip [of 1700000000 example_request Map.empty ?did ?env
                                  "JStr ''audio''" "JStr ''mp3''" ?opts ?url
                                  "''/tmp/yt_download_job_clip.webm''"]
          a b c g f
    by (simp only: d e simp_thms)
qed

text \<open>
  C3. The comment in \<open>download_video\<close> calls the id unique, but the id is the clock
  in whole milliseconds: two requests inside one millisecond get the same id, and the
  second one puts the job of the first back to \<open>starting\<close>.
\<close>

theorem same_millisecond_same_id:
  "fst (download_video (17000000000001 / 10000) example_request Map.empty)
     = (StartedJson ''download_1700000000000'', 200)
   \<and> fst (download_video (17000000000004 / 10000) example_request
        (fst (snd (download_video (17000000000001 / 10000) example_request Map.empty))))
     = (StartedJson ''download_1700000000000'', 200)
   \<and> fst (snd (download_video (17000000000004 / 10000) example_request
        [''download_1700000000000'' \<mapsto> completed_job ''/tmp/yt_download_job_clip.mp4'']))
        ''download_1700000000000''
     = Some starting_job"
proof -
  have u: "dict_get example_request ''url'' (JStr []) = JStr ''https://youtu.be/dQw4w9WgXcQ''"
    and s: "py_strip ''https://youtu.be/dQw4w9WgXcQ'' \<noteq> []" and d: "example_request \<noteq> []"
    by (simp_all add: example_request_def dict_get_def py_strip_def is_space_def)
  have p1: "py_int (17000000000001 / 10000 * 1000) = 1700000000000"
    by (simp add: py_int_def floor_numeral_div)
  have p2: "py_int (17000000000004 / 10000 * 1000) = 1700000000000"
    by (simp add: py_int_def floor_numeral_div)
  have t: "str_int 1700000000000 = ''1700000000000''"
    by (simp add: str_int_def str_nat.simps digit_char_def)
  show ?thesis
    by (simp only: download_video_started [OF u s d] download_video_registry [OF u s d] p1 p2 t)
       simp
qed




text \<open>
  C5. As stated, the claim fails for normalisation: \<open>clean_youtube_url\<close> never looks
  at the host, and its first pattern takes the eleven characters after any \<open>/\<close> or
  \<open>v=\<close>, so a string that fails validation can still be rewritten.

  What holds: a string that matches neither host pattern fails validation; and a
  string in which no \<open>v=\<close> and no \<open>/\<close> is directly followed by eleven characters of
  \<open>[0-9A-Za-z_-]\<close> comes back from normalisation unchanged.
\<close>

theorem unrecognised_url_left_alone:
  "(list_all (\<lambda>p. re_search p url = None) youtube_patterns \<longrightarrow> \<not> is_valid_youtube_url url)
   \<and> (\<not> has_id_after url \<longrightarrow> clean_youtube_url url = url)"
proof (intro conjI impI)
  assume "list_all (\<lambda>p. re_search p url = None) youtube_patterns"
  then show "\<not> is_valid_youtube_url url"
    by (simp add: is_valid_youtube_url_def list_ex_iff list_all_iff)
next
  assume no: "\<not> has_id_after url"
  have "re_search (clean_patterns ! 0) url = None" "re_search (clean_patterns ! 1) url = None"
    "re_search (clean_patterns ! 2) url = None"
    using no pattern1_match pattern2_match pattern3_match by (simp_all add: re_search_none)
  then have "first_match clean_patterns url = None"
    by (simp add: clean_patterns_def)
  then show "clean_youtube_url url = url" by (simp add: clean_youtube_url_def)
qed

theorem unrecognised_url_left_alone_witness:
  "\<not> is_valid_youtube_url ''https://vimeo.com/12345?v=abc''
   \<and> clean_youtube_url ''https://vimeo.com/12345?v=abc'' = ''https://vimeo.com/12345?v=abc''"
proof -
  have a: "list_all (\<lambda>p. re_search p ''https://vimeo.com/12345?v=abc'' = None) youtube_patterns"
    by code_simp
  have b: "\<not> has_id_after ''https://vimeo.com/12345?v=abc''"
    by code_simp
  show ?thesis
    using unrecognised_url_left_alone [of "''https://vimeo.com/12345?v=abc''"] a b
    by (simp only: simp_thms)
qed

theorem foreign_url_rewritten:
  "\<not> is_valid_youtube_url ''https://example.com/hello_world''
   \<and> clean_youtube_url ''https://example.com/hello_world''
       = ''https://www.youtube.com/watch?v=hello_world''
   \<and> clean_youtube_url ''https://example.com/hello_world'' \<noteq> ''https://example.com/hello_world''"
  by code_simp

text \<open>
  C6. The docstring of \<open>clean_youtube_url\<close> says it extracts the video's id, but its
  first pattern also matches a \<open>/\<close> followed by eleven characters of the class
  anywhere before the id, and the leftmost match wins: for a valid URL on the host
  \<open>youtube-nocookie.com\<close> the result carries the first eleven characters of the host,
  not the id after \<open>/embed/\<close>.
\<close>

theorem nocookie_embed_wrong_id:
  "is_valid_youtube_url ''https://youtube-nocookie.com/embed/dQw4w9WgXcQ''
   \<and> clean_youtube_url ''https://youtube-nocookie.com/embed/dQw4w9WgXcQ''
       = ''https://www.youtube.com/watch?v=youtube-noc''
   \<and> clean_youtube_url ''https://youtube-nocookie.com/embed/dQw4w9WgXcQ''
       \<noteq> ''https://www.youtube.com/watch?v=dQw4w9WgXcQ''"
  by code_simp

text \<open>
  C7. As stated, the claim fails for the ffmpeg probe: \<open>check_ffmpeg\<close> catches every
  exception of the probe itself and answers \<open>False\<close>, so a failing probe writes no
  \<open>error\<close> record and the job can go on to \<open>completed\<close>.

  What holds: whatever exception is raised by the selection of the format, by the
  backend (building it, downloading, naming the output file) or after the \<open>completed\<close>
  write, the worker writes for the job the \<open>error\<close> dictionary that carries \<open>str(e)\<close>,
  and no exception leaves the worker; a failing probe only makes \<open>check_ffmpeg\<close>
  answer \<open>False\<close>.
\<close>

theorem worker_failure_becomes_error_record:
  "((configure_format (initial_opts env did) ft q (check_ffmpeg env) = Inl e
     \<or> (\<exists>opts. configure_format (initial_opts env did) ft q (check_ffmpeg env) = Inr opts
                \<and> (run_result (backend env url opts) = Inl e
                     \<or> (\<exists>fname. run_result (backend env url opts) = Inr fname
                                \<and> run_close (backend env url opts) = Some e))))
    \<longrightarrow> fst (download_worker env did url ft q reg) = None
        \<and> snd (download_worker env did url ft q reg) did =
            Some \<lparr>status = ''error'', progress = Present 0, filename = Absent, filepath = Absent,
                  error = Present (str_exn e)\<rparr>)
   \<and> (ffmpeg_probe env \<noteq> None \<longrightarrow> \<not> check_ffmpeg env)"
proof (intro conjI impI)
  assume "configure_format (initial_opts env did) ft q (check_ffmpeg env) = Inl e
     \<or> (\<exists>opts. configure_format (initial_opts env did) ft q (check_ffmpeg env) = Inr opts
                \<and> (run_result (backend env url opts) = Inl e
                     \<or> (\<exists>fname. run_result (backend env url opts) = Inr fname
                                \<and> run_close (backend env url opts) = Some e)))"
  then have b: "fst (download_worker_body env did url ft q reg) = Some e"
    by (simp only: worker_body_failure)
  show "fst (download_worker env did url ft q reg) = None"
    by (rule worker_never_raises)
  from b show "snd (download_worker env did url ft q reg) did =
            Some \<lparr>status = ''error'', progress = Present 0, filename = Absent, filepath = Absent,
                  error = Present (str_exn e)\<rparr>"
    by (cases "download_worker_body env did url ft q reg")
       (simp add: download_worker_def error_job_def)
next
  assume "ffmpeg_probe env \<noteq> None"
  then show "\<not> check_ffmpeg env"
    by (auto simp: check_ffmpeg_def)
qed

theorem worker_failure_becomes_error_record_witness:
  "fst (download_worker (no_ffmpeg_env [] (Inr ''/tmp/yt_download_job_clip.mp4''))
          ''job'' ''https://www.youtube.com/watch?v=dQw4w9WgXcQ'' (JStr ''video'') (JInt 720)
          [''job'' \<mapsto> starting_job]) = None
   \<and> snd (download_worker (no_ffmpeg_env [] (Inr ''/tmp/yt_download_job_clip.mp4''))
          ''job'' ''https://www.youtube.com/watch?v=dQw4w9WgXcQ'' (JStr ''video'') (JInt 720)
          [''job'' \<mapsto> starting_job]) ''job'' =
       Some \<lparr>status = ''error'', progress = Present 0, filename = Absent, filepath = Absent,
             error = Present (CHR 0x27 # ''int'' @ CHR 0x27 # '' object has no attribute ''
                              @ CHR 0x27 # ''endswith'' @ [CHR 0x27])\<rparr>
   \<and> \<not> check_ffmpeg (no_ffmpeg_env [] (Inr ''/tmp/yt_download_job_clip.mp4''))"
proof -
  let ?env = "no_ffmpeg_env [] (Inr ''/tmp/yt_download_job_clip.mp4'')"
  have c: "configure_format (initial_opts ?env ''job'') (JStr ''video'') (JInt 720)
             (check_ffmpeg ?env) = Inl (no_attribute (JInt 720) ''endswith'')"
    by (simp add: configure_format_def check_ffmpeg_def no_ffmpeg_env_def endswith_p_def)
  have p: "ffmpeg_probe ?env \<noteq> None"
    by (simp add: no_ffmpeg_env_def)
  have m: "str_exn (no_attribute (JInt 720) ''endswith'')
             = CHR 0x27 # ''int'' @ CHR 0x27 # '' object has no attribute ''
               @ CHR 0x27 # ''endswith'' @ [CHR 0x27]"
    by (simp add: no_attribute_def)
  show ?thesis
    using worker_failure_becomes_error_record
            [of ?env "''job''" "JStr ''video''" "JInt 720"
                "no_attribute (JInt 720) ''endswith''"
                "''https://www.youtube.com/watch?v=dQw4w9WgXcQ''" "[''job'' \<mapsto> starting_job]"]
          c p
    by (simp only: m simp_thms)
qed

theorem probe_failure_completed:
  "ffmpeg_probe (no_ffmpeg_env [ev_finished] (Inr ''/tmp/yt_download_job_clip.mp4''))
     = Some (OSError (''[Errno 2] No such file or directory: '' @ [CHR 0x27] @ ''ffmpeg''
                      @ [CHR 0x27]))
   \<and> download_worker (no_ffmpeg_env [ev_finished] (Inr ''/tmp/yt_download_job_clip.mp4''))
        ''job'' ''https://www.youtube.com/watch?v=dQw4w9WgXcQ'' (JStr ''video'')
        (JStr ''Mejor calidad'') [''job'' \<mapsto> starting_job]
     = (None, [''job'' \<mapsto> \<lparr>status = ''completed'', progress = Present 100,
                             filename = Present (Some ''yt_download_job_clip.mp4''),
                             filepath = Present ''/tmp/yt_download_job_clip.mp4'',
                             error = Absent\<rparr>])"
  by (simp add: no_ffmpeg_env_def download_worker_def download_worker_body_def
                configure_format_def check_ffmpeg_def run_hooks_def progress_hook_def
                progress_hook_body_def py_getitem_def ev_finished_def processing_job_def
                completed_job_def final_filename_def basename_def Let_def)

text \<open>
  C8. One sweep over a folder whose entries have distinct names deletes exactly the
  entries whose name follows the naming convention of the job outputs (it starts with
  \<open>yt_download_\<close>), whose age is above the threshold, and whose deletion does not fail;
  every other entry stays, and the sweep counts the entries it deleted. Whether an
  entry goes depends on that entry alone, so a deletion that fails stops no other
  deletion. With the default threshold of 3600 seconds, of a fresh job output (10 s), a
  stale job output whose deletion fails, a stale file of another name and a stale job
  output (5000 s), only the last one goes.
\<close>

theorem reaper_deletes_stale_removable:
  assumes "distinct (map entry_name fs)"
  shows "clean_old_files t a (Inr fs) =
           (Inr (filter (\<lambda>f. \<not> (stale t a f \<and> removable f)) fs),
            length (filter (\<lambda>f. stale t a f \<and> removable f) fs))"
proof -
  let ?gs = "filter (\<lambda>f. glob_yt_download (entry_name f)) fs"
  let ?D = "{f \<in> set ?gs. try_delete t a f = Inr True}"
  have inj: "inj_on entry_name (set fs)" using assms by (simp add: distinct_map)
  have D: "?D = {f \<in> set fs. stale t a f \<and> removable f}"
    using try_delete_iff by (auto simp: stale_def glob_is_naming_convention)
  have kept: "filter (\<lambda>g. entry_name g \<notin> entry_name ` ?D) fs
              = filter (\<lambda>f. \<not> (stale t a f \<and> removable f)) fs"
  proof (rule filter_cong [OF refl])
    fix g assume g: "g \<in> set fs"
    show "(entry_name g \<notin> entry_name ` ?D) = (\<not> (stale t a g \<and> removable g))"
      unfolding D using g inj by (auto dest: inj_onD)
  qed
  have cnt: "filter (\<lambda>f. try_delete t a f = Inr True) ?gs
             = filter (\<lambda>f. stale t a f \<and> removable f) fs"
    using try_delete_iff by (auto simp: stale_def glob_is_naming_convention intro!: filter_cong)
  show ?thesis
    by (simp only: clean_old_files_def sum.case Let_def sweep_fold fst_conv snd_conv kept cnt)
       simp
qed

theorem reaper_deletes_stale_removable_witness:
  "clean_old_files 10000 (MAX_FILE_AGE None)
     (Inr [fresh_file, locked_file, foreign_file, old_file])
     = (Inr [fresh_file, locked_file, foreign_file], 1)"
proof -
  have d: "distinct (map entry_name [fresh_file, locked_file, foreign_file, old_file])"
    by (simp add: fresh_file_def locked_file_def foreign_file_def old_file_def)
  have f: "\<not> (stale 10000 (MAX_FILE_AGE None) fresh_file \<and> removable fresh_file)"
    by (simp add: stale_def fresh_file_def MAX_FILE_AGE_def)
  have l: "\<not> (stale 10000 (MAX_FILE_AGE None) locked_file \<and> removable locked_file)"
    by (simp add: removable_def locked_file_def)
  have g: "\<not> (stale 10000 (MAX_FILE_AGE None) foreign_file \<and> removable foreign_file)"
    by (simp add: stale_def job_output_name_def foreign_file_def)
  have o: "stale 10000 (MAX_FILE_AGE None) old_file \<and> removable old_file"
    by (simp add: stale_def removable_def old_file_def MAX_FILE_AGE_def job_output_name_def)
  show ?thesis
    using reaper_deletes_stale_removable [OF d, of 10000 "MAX_FILE_AGE None"] f l g o
    by simp
qed

text \<open>
  C9. \<open>download_file\<close> answers with the file as an attachment only when the registry
  holds the job, its status is \<open>completed\<close> and the recorded path exists on the disk;
  whenever one of the three fails (an id the registry does not hold, any other status,
  no file at the path) it answers 404 with an error body.
\<close>

theorem file_served_only_when_completed:
  "(\<forall>p name code. download_file did reg fs = (Attachment p name, code) \<longrightarrow>
      (\<exists>j. reg did = Some j \<and> status j = ''completed'' \<and> filepath j = Present p
           \<and> path_exists fs p))
   \<and> (\<not> (\<exists>j p. reg did = Some j \<and> status j = ''completed'' \<and> filepath j = Present p
              \<and> path_exists fs p) \<longrightarrow>
        (\<exists>msg. download_file did reg fs = (ErrorJson msg, 404)))"
  by (auto simp: download_file_def download_file_body_def py_getitem_def
           split: option.splits field.splits sum.splits if_splits)

theorem file_served_only_when_completed_witness:
  "snd (download_file ''job'' [''job'' \<mapsto> downloading_job 50] example_disk) = 404
   \<and> path_exists example_disk ''/tmp/yt_download_job_clip.mp4''
   \<and> download_file ''job'' [''job'' \<mapsto> completed_job ''/tmp/yt_download_job_clip.mp4'']
        example_disk
      = (Attachment ''/tmp/yt_download_job_clip.mp4'' (Some ''yt_download_job_clip.mp4''), 200)"
proof -
  have n: "\<not> (\<exists>j p. [''job'' \<mapsto> downloading_job 50] ''job'' = Some j \<and> status j = ''completed''
               \<and> filepath j = Present p \<and> path_exists example_disk p)"
    by (simp add: downloading_job_def)
  have s: "download_file ''job'' [''job'' \<mapsto> completed_job ''/tmp/yt_download_job_clip.mp4'']
             example_disk
           = (Attachment ''/tmp/yt_download_job_clip.mp4'' (Some ''yt_download_job_clip.mp4''), 200)"
    by (simp add: download_file_def download_file_body_def completed_job_def example_disk_def
                  py_getitem_def basename_def)
  have "path_exists example_disk ''/tmp/yt_download_job_clip.mp4''"
    using file_served_only_when_completed
            [of "''job''" "[''job'' \<mapsto> completed_job ''/tmp/yt_download_job_clip.mp4'']"
                example_disk] s
    by (simp add: completed_job_def)
  moreover have "\<exists>msg. download_file ''job'' [''job'' \<mapsto> downloading_job 50] example_disk
                        = (ErrorJson msg, 404)"
    using file_served_only_when_completed
            [of "''job''" "[''job'' \<mapsto> downloading_job 50]" example_disk] n
    by blast
  ultimately show ?thesis using s by auto
qed

text \<open>
  C10. Every write puts a whole dictionary in the place of the stored one, and what it
  stores does not depend on what was stored: the \<open>starting\<close> write of a new download,
  the \<open>downloading\<close> and \<open>processing\<close> writes of the hook, the \<open>completed\<close> write and
  the \<open>error\<close> write of the worker. After the \<open>error\<close> write the job reads back with
  status \<open>error\<close>, progress 0, the message, and neither a \<open>filename\<close> nor a
  \<open>filepath\<close> key, whatever the registry held for the job before and whatever was
  written during the run.
\<close>

theorem error_write_replaces_record:
  "(fst (download_video now data reg) = (StartedJson did, 200) \<longrightarrow>
      fst (snd (download_video now data reg)) did =
        Some \<lparr>status = ''starting'', progress = Present 0, filename = Present None,
              filepath = Absent, error = Absent\<rparr>)
   \<and> (d_status d = Present ''downloading'' \<and> hook_percent d = Inr p \<longrightarrow>
        progress_hook did d reg did =
          Some \<lparr>status = ''downloading'', progress = Present (py_round1 p),
                filename = Present None, filepath = Absent, error = Absent\<rparr>)
   \<and> (d_status d' = Present ''finished'' \<longrightarrow>
        progress_hook did d' reg did =
          Some \<lparr>status = ''processing'', progress = Present 100,
                filename = Present (case d_filename d' of Absent \<Rightarrow> None | Present f \<Rightarrow> f),
                filepath = Absent, error = Absent\<rparr>)
   \<and> (configure_format (initial_opts env did) ft q (check_ffmpeg env) = Inr opts
        \<and> run_result (backend env url opts) = Inr fname \<longrightarrow>
        snd (download_worker_body env did url ft q reg) did =
          Some \<lparr>status = ''completed'', progress = Present 100,
                filename = Present (Some (basename (final_filename ft q fname))),
                filepath = Present (final_filename ft q fname), error = Absent\<rparr>)
   \<and> (fst (download_worker_body env did url ft q reg) = Some e \<longrightarrow>
        get_progress did (snd (download_worker env did url ft q reg)) =
          (JobJson \<lparr>status = ''error'', progress = Present 0, filename = Absent,
                    filepath = Absent, error = Present (str_exn e)\<rparr>, 200))"
proof (intro conjI impI)
  assume "fst (download_video now data reg) = (StartedJson did, 200)"
  then show "fst (snd (download_video now data reg)) did =
        Some \<lparr>status = ''starting'', progress = Present 0, filename = Present None,
              filepath = Absent, error = Absent\<rparr>"
    by (auto simp: download_video_def download_video_body_def Let_def starting_job_def
             split: if_splits jval.splits)
next
  assume "d_status d = Present ''downloading'' \<and> hook_percent d = Inr p"
  then show "progress_hook did d reg did =
          Some \<lparr>status = ''downloading'', progress = Present (py_round1 p),
                filename = Present None, filepath = Absent, error = Absent\<rparr>"
    by (simp add: progress_hook_def progress_hook_body_def py_getitem_def downloading_job_def)
next
  assume "d_status d' = Present ''finished''"
  then show "progress_hook did d' reg did =
          Some \<lparr>status = ''processing'', progress = Present 100,
                filename = Present (case d_filename d' of Absent \<Rightarrow> None | Present f \<Rightarrow> f),
                filepath = Absent, error = Absent\<rparr>"
    by (simp add: progress_hook_def progress_hook_body_def py_getitem_def processing_job_def)
next
  assume "configure_format (initial_opts env did) ft q (check_ffmpeg env) = Inr opts
        \<and> run_result (backend env url opts) = Inr fname"
  then show "snd (download_worker_body env did url ft q reg) did =
          Some \<lparr>status = ''completed'', progress = Present 100,
                filename = Present (Some (basename (final_filename ft q fname))),
                filepath = Present (final_filename ft q fname), error = Absent\<rparr>"
    by (simp add: download_worker_body_def Let_def completed_job_def)
next
  assume "fst (download_worker_body env did url ft q reg) = Some e"
  then show "get_progress did (snd (download_worker env did url ft q reg)) =
          (JobJson \<lparr>status = ''error'', progress = Present 0, filename = Absent,
                    filepath = Absent, error = Present (str_exn e)\<rparr>, 200)"
    by (cases "download_worker_body env did url ft q reg")
       (simp add: download_worker_def get_progress_def error_job_def)
qed

theorem error_write_replaces_record_witness:
  "fst (snd (download_video 1700000000 example_request
               [''download_1700000000000'' \<mapsto> completed_job ''/tmp/yt_download_job_old.mp4'']))
       ''download_1700000000000''
     = Some \<lparr>status = ''starting'', progress = Present 0, filename = Present None,
             filepath = Absent, error = Absent\<rparr>
   \<and> progress_hook ''download_1700000000000'' (ev_downloading 50 100)
       [''download_1700000000000'' \<mapsto> completed_job ''/tmp/yt_download_job_old.mp4'']
       ''download_1700000000000''
     = Some \<lparr>status = ''downloading'', progress = Present 50, filename = Present None,
             filepath = Absent, error = Absent\<rparr>
   \<and> progress_hook ''download_1700000000000'' ev_finished
       [''download_1700000000000'' \<mapsto> completed_job ''/tmp/yt_download_job_old.mp4'']
       ''download_1700000000000''
     = Some \<lparr>status = ''processing'', progress = Present 100,
             filename = Present (Some ''/tmp/yt_download_job_clip.f137.mp4''),
             filepath = Absent, error = Absent\<rparr>
   \<and> snd (download_worker_body
            (closing_env [ev_downloading 50 100, ev_finished] ''/tmp/yt_download_job_clip.mp4''
               (OSError ''[Errno 13] Permission denied: cookies.txt''))
            ''download_1700000000000'' ''https://www.youtube.com/watch?v=dQw4w9WgXcQ''
            (JStr ''video'') (JStr ''Mejor calidad'')
            [''download_1700000000000'' \<mapsto> completed_job ''/tmp/yt_download_job_old.mp4''])
       ''download_1700000000000''
     = Some \<lparr>status = ''completed'', progress = Present 100,
             filename = Present (Some ''yt_download_job_clip.mp4''),
             filepath = Present ''/tmp/yt_download_job_clip.mp4'', error = Absent\<rparr>
   \<and> get_progress ''download_1700000000000''
       (snd (download_worker
               (closing_env [ev_downloading 50 100, ev_finished] ''/tmp/yt_download_job_clip.mp4''
                  (OSError ''[Errno 13] Permission denied: cookies.txt''))
               ''download_1700000000000'' ''https://www.youtube.com/watch?v=dQw4w9WgXcQ''
               (JStr ''video'') (JStr ''Mejor calidad'')
               [''download_1700000000000'' \<mapsto> completed_job ''/tmp/yt_download_job_old.mp4'']))
     = (JobJson \<lparr>status = ''error'', progress = Present 0, filename = Absent, filepath = Absent,
                 error = Present ''[Errno 13] Permission denied: cookies.txt''\<rparr>, 200)"
proof -
  let ?did = "''download_1700000000000''"
  let ?url = "''https://www.youtube.com/watch?v=dQw4w9WgXcQ''"
  let ?err = "OSError ''[Errno 13] Permission denied: cookies.txt''"
  let ?env = "closing_env [ev_downloading 50 100, ev_finished] ''/tmp/yt_download_job_clip.mp4''
                ?err"
  let ?reg = "[?did \<mapsto> completed_job ''/tmp/yt_download_job_old.mp4'']"
  let ?opts = "(initial_opts ?env ?did)
                 \<lparr>o_format := Present ''bestvideo[ext=mp4]+bestaudio[ext=m4a]/best'',
                  merge_output_format := Present ''mp4''\<rparr>"
  have a: "fst (download_video 1700000000 example_request ?reg) = (StartedJson ?did, 200)"
    by (simp add: download_video_def download_video_body_def example_request_def dict_get_def
          py_strip_def is_space_def py_int_def str_int_def str_nat.simps digit_char_def Let_def)
  have b: "d_status (ev_downloading 50 100) = Present ''downloading''
           \<and> hook_percent (ev_downloading 50 100) = Inr 50"
    by (simp add: ev_downloading_def hook_percent_def percent_of_def py_getitem_def
                  py_truediv_def)
  have r: "py_round1 50 = 50" by (simp add: py_round1_def round_half_even_def)
  have c: "d_status ev_finished = Present ''finished''"
    by (simp add: ev_finished_def)
  have n: "(case d_filename ev_finished of Absent \<Rightarrow> None | Present f \<Rightarrow> f)
             = Some ''/tmp/yt_download_job_clip.f137.mp4''"
    by (simp add: ev_finished_def)
  have g: "configure_format (initial_opts ?env ?did) (JStr ''video'') (JStr ''Mejor calidad'')
             (check_ffmpeg ?env) = Inr ?opts"
    by (simp add: configure_format_def check_ffmpeg_def closing_env_def)
  have h: "run_result (backend ?env ?url ?opts) = Inr ''/tmp/yt_download_job_clip.mp4''"
    by (simp add: closing_env_def)
  have k: "fst (download_worker_body ?env ?did ?url (JStr ''video'') (JStr ''Mejor calidad'')
                  ?reg) = Some ?err"
  proof -
    have "run_close (backend ?env ?url ?opts) = Some ?err" by (simp add: closing_env_def)
    with g h show ?thesis unfolding worker_body_failure by blast
  qed
  have f: "final_filename (JStr ''video'') (JStr ''Mejor calidad'')
             ''/tmp/yt_download_job_clip.mp4'' = ''/tmp/yt_download_job_clip.mp4''"
    by (simp add: final_filename_def)
  have e: "basename ''/tmp/yt_download_job_clip.mp4'' = ''yt_download_job_clip.mp4''"
    by (simp add: basename_def)
  have m: "str_exn ?err = ''[Errno 13] Permission denied: cookies.txt''" by simp
  show ?thesis
    using error_write_replaces_record
            [of 1700000000 example_request ?reg ?did "ev_downloading 50 100" 50 ev_finished
                ?env "JStr ''video''" "JStr ''Mejor calidad''" ?opts ?url
                "''/tmp/yt_download_job_clip.mp4''" ?err]
          a b c g h k
    by (simp only: r n f e m simp_thms)
qed

end
